theory Spec2Isabelle
  imports Complex_Main "HOL-Library.Sublist"
begin

section \<open>Data model of \<^verbatim>\<open>src/advanced_code_assistant.py\<close>\<close>

text \<open>
  Python strings are modelled as \<^typ>\<open>string\<close>: a list of characters, each one code
  point below 256, so \<^const>\<open>length\<close> is Python's \<^verbatim>\<open>len\<close>. A \<^verbatim>\<open>datetime\<close>
  is a reading of the clock; every \<^verbatim>\<open>datetime.now()\<close> of the source is a
  parameter of the function that reads it. A Python \<^verbatim>\<open>float\<close> is modelled as an
  exact rational.
\<close>

type_synonym datetime = nat

datatype LanguageType =
    PYTHON | JAVASCRIPT | TYPESCRIPT | JAVA | CPP | CSHARP | GO | RUST | PHP
  | RUBY | SWIFT | KOTLIN | SCALA | R | SQL | HTML | CSS

datatype AnalysisType =
    COMPLEXITY | QUALITY | SECURITY | PERFORMANCE | STYLE | DOCUMENTATION

text \<open>
  The values stored in the \<^verbatim>\<open>Dict[str, Any]\<close> of an issue or of the metrics. A dict
  literal is the list of its items in the order the source writes them.
\<close>

datatype pyval = PyStr string | PyInt int | PyFloat rat

type_synonym pydict = "(string \<times> pyval) list"

record CodeAnalysisResult =
  file_path :: string
  language :: LanguageType
  analysis_type :: AnalysisType
  score :: rat
  issues :: "pydict list"
  suggestions :: "string list"
  metrics :: pydict
  timestamp :: datetime

section \<open>Python string operations\<close>

text \<open>
  \<^verbatim>\<open>str.lower\<close> on code points below 256: the letters A to Z and the upper-case
  letters of Latin-1 (192 to 222 but the multiplication sign 215) move up by 32.
\<close>

definition char_lower :: "char \<Rightarrow> char" where
  "char_lower c =
     (let n = (of_char c :: nat)
      in if (65 \<le> n \<and> n \<le> 90) \<or> (192 \<le> n \<and> n \<le> 222 \<and> n \<noteq> 215)
         then char_of (n + 32) else c)"

definition str_lower :: "string \<Rightarrow> string" where
  "str_lower s = map char_lower s"

text \<open>\<^verbatim>\<open>sub in s\<close>: \<^verbatim>\<open>sub\<close> is a contiguous part of \<^verbatim>\<open>s\<close>.\<close>

definition str_in :: "string \<Rightarrow> string \<Rightarrow> bool" where
  "str_in sub s = sublist sub s"

text \<open>\<^verbatim>\<open>s.split(sep)\<close> for a separator of one character; never the empty list.\<close>

fun str_split :: "char \<Rightarrow> string \<Rightarrow> string list" where
  "str_split sep [] = [[]]"
| "str_split sep (c # cs) =
     (if c = sep then [] # str_split sep cs
      else (case str_split sep cs of l # ls \<Rightarrow> (c # l) # ls | [] \<Rightarrow> [[c]]))"

text \<open>
  \<^verbatim>\<open>str.isspace\<close> on one code point below 256: tab to carriage return, the four
  separators 28 to 31, the space, next-line (133) and the no-break space (160).
\<close>

definition is_space :: "char \<Rightarrow> bool" where
  "is_space c =
     (let n = (of_char c :: nat)
      in (9 \<le> n \<and> n \<le> 13) \<or> (28 \<le> n \<and> n \<le> 32) \<or> n = 133 \<or> n = 160)"

definition str_strip :: "string \<Rightarrow> string" where
  "str_strip s = rev (dropWhile is_space (rev (dropWhile is_space s)))"

text \<open>\<^verbatim>\<open>sep.join(xs)\<close>.\<close>

fun str_join :: "string \<Rightarrow> string list \<Rightarrow> string" where
  "str_join sep [] = []"
| "str_join sep [x] = x"
| "str_join sep (x # y # ys) = x @ sep @ str_join sep (y # ys)"

text \<open>\<^verbatim>\<open>s.replace(old, new)\<close> for \<^verbatim>\<open>old\<close> and \<^verbatim>\<open>new\<close> of one character.\<close>

definition str_replace :: "char \<Rightarrow> char \<Rightarrow> string \<Rightarrow> string" where
  "str_replace old new s = map (\<lambda>c. if c = old then new else c) s"

text \<open>The decimal digits of a natural number, as an f-string writes an \<^verbatim>\<open>int\<close>.\<close>

fun str_of_nat :: "nat \<Rightarrow> string" where
  "str_of_nat n =
     (if n < 10 then [char_of (48 + n)]
      else str_of_nat (n div 10) @ [char_of (48 + n mod 10)])"

declare str_of_nat.simps [simp del]

section \<open>The fallback analyses of \<^verbatim>\<open>CodeAnalyzer\<close>\<close>

definition complexity_indicators :: "string list" where
  "complexity_indicators =
     [''if'', ''else'', ''for'', ''while'', ''switch'', ''case'', ''try'', ''catch'']"

definition basic_complexity_analysis ::
  "string \<Rightarrow> LanguageType \<Rightarrow> datetime \<Rightarrow> CodeAnalysisResult" where
  "basic_complexity_analysis code lang now =
     (let lines = str_split CHR 0x0A code;
          non_empty_lines = filter (\<lambda>line. str_strip line \<noteq> []) lines;
          complexity_count =
            sum_list [1 :: nat. line \<leftarrow> non_empty_lines, indicator \<leftarrow> complexity_indicators,
                      str_in indicator (str_lower line)];
          score = max 0 (100 - int complexity_count * 2)
      in \<lparr>file_path = ''<string>'', language = lang, analysis_type = COMPLEXITY,
          score = of_int score, issues = [],
          suggestions =
            (if complexity_count > 10
             then [''Consider simplifying complex logic (found '' @ str_of_nat complexity_count
                   @ '' complexity indicators)'']
             else []),
          metrics = [(''complexity_indicators'', PyInt (int complexity_count)),
                     (''lines_of_code'', PyInt (int (length non_empty_lines)))],
          timestamp = now\<rparr>)"

definition security_patterns :: "(string \<times> string list) list" where
  "security_patterns =
     [(''sql_injection'', [''SELECT'', ''INSERT'', ''UPDATE'', ''DELETE'']),
      (''xss'', [''innerHTML'', ''document.write'', ''eval'']),
      (''hardcoded_secrets'', [''password'', ''api_key'', ''secret'', ''token'']),
      (''unsafe_functions'', [''exec'', ''system'', ''shell_exec''])]"

definition basic_security_analysis ::
  "string \<Rightarrow> LanguageType \<Rightarrow> datetime \<Rightarrow> CodeAnalysisResult" where
  "basic_security_analysis code lang now =
     (let found = [(issue_type, pattern). (issue_type, patterns) \<leftarrow> security_patterns,
                     pattern \<leftarrow> patterns, str_in (str_lower pattern) (str_lower code)];
          security_issues =
            map (\<lambda>(issue_type, pattern).
                   [(''type'', PyStr issue_type), (''pattern'', PyStr pattern),
                    (''severity'', PyStr ''medium'')]) found;
          suggestions =
            map (\<lambda>(issue_type, pattern).
                   ''Potential '' @ str_replace (CHR ''_'') (CHR '' '') issue_type
                   @ '' risk with '' @ [CHR 0x27] @ pattern @ [CHR 0x27]) found;
          score = max 0 (100 - int (length security_issues) * 10)
      in \<lparr>file_path = ''<string>'', language = lang, analysis_type = SECURITY,
          score = of_int score, issues = security_issues, suggestions = suggestions,
          metrics = [(''potential_issues'', PyInt (int (length security_issues)))],
          timestamp = now\<rparr>)"

text \<open>
  The loop of \<^verbatim>\<open>_basic_style_analysis\<close> numbers the lines from 1. Its second
  \<^verbatim>\<open>if\<close> has the body \<^verbatim>\<open>pass\<close> and does nothing.
\<close>

definition basic_style_analysis ::
  "string \<Rightarrow> LanguageType \<Rightarrow> datetime \<Rightarrow> CodeAnalysisResult" where
  "basic_style_analysis code lang now =
     (let lines = str_split CHR 0x0A code;
          long = [(i, line). (i, line) \<leftarrow> enumerate 1 lines, length line > 120];
          issues =
            map (\<lambda>(i, line).
                   [(''type'', PyStr ''line_too_long''), (''line'', PyInt (int i)),
                    (''length'', PyInt (int (length line))), (''severity'', PyStr ''low'')]) long;
          suggestions =
            map (\<lambda>(i, line).
                   ''Line '' @ str_of_nat i @ '' is too long ('' @ str_of_nat (length line)
                   @ '' characters)'') long;
          score = max 0 (100 - int (length issues) * 5)
      in \<lparr>file_path = ''<string>'', language = lang, analysis_type = STYLE,
          score = of_int score, issues = issues, suggestions = suggestions,
          metrics = [(''style_issues'', PyInt (int (length issues)))],
          timestamp = now\<rparr>)"

section \<open>The keyword count as the specification words it\<close>

text \<open>
  The specification's fallback complexity score is computed from the number of occurrences
  of the eight keywords in the non-blank lines. This is that number, every occurrence
  counted, and read in favour of the code where the specification is silent: an occurrence
  is a place of the lower-cased line where the keyword starts, inside a longer word or not.
\<close>

definition count_occurrences :: "string \<Rightarrow> string \<Rightarrow> nat" where
  "count_occurrences sub s = length (filter (prefix sub) (suffixes s))"

definition spec_keyword_occurrences :: "string \<Rightarrow> nat" where
  "spec_keyword_occurrences code =
     (\<Sum>line \<leftarrow> filter (\<lambda>l. str_strip l \<noteq> []) (str_split CHR 0x0A code).
        \<Sum>k \<leftarrow> complexity_indicators. count_occurrences k (str_lower line))"

text \<open>One line of JavaScript with the keyword \<^verbatim>\<open>if\<close> twice.\<close>

definition else_if_line :: string where
  "else_if_line = ''if (a) { b(); } else if (c) { d(); }''"

text \<open>A line with the eight keywords, and the two-line code with that line twice.\<close>

definition keywords_line :: string where
  "keywords_line = ''if else for while switch case try catch''"

definition keywords_twice :: string where
  "keywords_twice = keywords_line @ [CHR 0x0A] @ keywords_line"

section \<open>The three analyses of \<^verbatim>\<open>CodeAnalyzer\<close>\<close>

text \<open>
  For Python code the analyses call libraries that are not part of the repository: the
  parser and radon, bandit, pylint. What such a library returns on a code string is a
  parameter of the analysis, \<^const>\<open>None\<close> when it raises: the \<^verbatim>\<open>except\<close>
  clause of the analysis then runs the fallback.
\<close>

text \<open>A block of radon's complexity visitor, and the fields read of radon's raw metrics.\<close>

record Block =
  name :: string
  lineno :: nat
  complexity :: nat

record RawMetrics =
  loc :: nat
  lloc :: nat
  sloc :: nat
  comments :: nat
  multi :: nat
  blank :: nat

definition analyze_complexity ::
  "(string \<Rightarrow> (Block list \<times> RawMetrics) option) \<Rightarrow> string \<Rightarrow> LanguageType \<Rightarrow> datetime
     \<Rightarrow> CodeAnalysisResult" where
  "analyze_complexity radon code lang now =
     (if lang \<noteq> PYTHON then basic_complexity_analysis code lang now
      else case radon code of
        None \<Rightarrow> basic_complexity_analysis code lang now
      | Some (complexity_blocks, raw_metrics) \<Rightarrow>
          (let total_complexity = sum_list (map complexity complexity_blocks);
               complex = filter (\<lambda>block. complexity block > 10) complexity_blocks;
               issues =
                 map (\<lambda>block.
                        [(''type'', PyStr ''high_complexity''), (''line'', PyInt (int (lineno block))),
                         (''function'', PyStr (name block)),
                         (''complexity'', PyInt (int (complexity block))),
                         (''severity'',
                            PyStr (if complexity block > 15 then ''high'' else ''medium''))])
                     complex;
               suggestions =
                 map (\<lambda>block.
                        ''Consider refactoring '' @ name block @ '' (complexity: ''
                        @ str_of_nat (complexity block) @ '')'') complex;
               avg_complexity =
                 (if complexity_blocks \<noteq> []
                  then rat_of_nat total_complexity / rat_of_nat (length complexity_blocks)
                  else 0);
               score = max 0 (100 - avg_complexity * 5)
           in \<lparr>file_path = ''<string>'', language = lang, analysis_type = COMPLEXITY,
               score = score, issues = issues, suggestions = suggestions,
               metrics =
                 [(''total_complexity'', PyInt (int total_complexity)),
                  (''average_complexity'', PyFloat avg_complexity),
                  (''functions_count'', PyInt (int (length complexity_blocks))),
                  (''lines_of_code'', PyInt (int (loc raw_metrics))),
                  (''logical_lines'', PyInt (int (lloc raw_metrics))),
                  (''source_lines'', PyInt (int (sloc raw_metrics))),
                  (''comments'', PyInt (int (comments raw_metrics))),
                  (''multi_line_strings'', PyInt (int (multi raw_metrics))),
                  (''blank_lines'', PyInt (int (blank raw_metrics)))],
               timestamp = now\<rparr>))"

text \<open>
  A finding of bandit. Its \<^verbatim>\<open>lineno\<close> and \<^verbatim>\<open>text\<close> are the fields
  \<open>issue_lineno\<close> and \<open>text_of\<close> here: the first name is a field of
  \<^typ>\<open>Block\<close>, the second an Isabelle keyword.
\<close>

record BanditIssue =
  issue_lineno :: nat
  test_id :: string
  severity :: string
  confidence :: string
  text_of :: string

definition analyze_security ::
  "(string \<Rightarrow> BanditIssue list option) \<Rightarrow> string \<Rightarrow> LanguageType \<Rightarrow> datetime
     \<Rightarrow> CodeAnalysisResult" where
  "analyze_security bandit code lang now =
     (if lang \<noteq> PYTHON then basic_security_analysis code lang now
      else case bandit code of
        None \<Rightarrow> basic_security_analysis code lang now
      | Some issue_list \<Rightarrow>
          (let issues =
                 map (\<lambda>issue.
                        [(''type'', PyStr ''security_issue''),
                         (''line'', PyInt (int (issue_lineno issue))),
                         (''test_id'', PyStr (test_id issue)),
                         (''severity'', PyStr (severity issue)),
                         (''confidence'', PyStr (confidence issue)),
                         (''text'', PyStr (text_of issue))]) issue_list;
               suggestions =
                 map (\<lambda>issue.
                        ''Security issue at line '' @ str_of_nat (issue_lineno issue) @ '': ''
                        @ text_of issue) issue_list;
               high_severity = length (filter (\<lambda>i. severity i = ''HIGH'') issue_list);
               medium_severity = length (filter (\<lambda>i. severity i = ''MEDIUM'') issue_list);
               low_severity = length (filter (\<lambda>i. severity i = ''LOW'') issue_list);
               score =
                 max 0 (100 - (int high_severity * 20 + int medium_severity * 10
                               + int low_severity * 5))
           in \<lparr>file_path = ''<string>'', language = lang, analysis_type = SECURITY,
               score = of_int score, issues = issues, suggestions = suggestions,
               metrics =
                 [(''total_issues'', PyInt (int (length issues))),
                  (''high_severity'', PyInt (int high_severity)),
                  (''medium_severity'', PyInt (int medium_severity)),
                  (''low_severity'', PyInt (int low_severity)),
                  (''lines_analyzed'', PyInt (int (length (str_split CHR 0x0A code))))],
               timestamp = now\<rparr>))"

text \<open>
  The lines of pylint's report that the style analysis turns into issues: those with a
  colon and one of the three words, split at the colons into at least four parts.
\<close>

definition pylint_findings :: "string \<Rightarrow> (string \<times> string) list" where
  "pylint_findings pylint_result =
     [(str_strip (parts ! 1), str_strip (str_join '':'' (drop 3 parts))).
        line \<leftarrow> str_split CHR 0x0A pylint_result,
        str_in '':'' line
        \<and> (str_in ''error'' (str_lower line) \<or> str_in ''warning'' (str_lower line)
           \<or> str_in ''convention'' (str_lower line)),
        parts \<leftarrow> [str_split (CHR '':'') line],
        length parts \<ge> 4]"

definition analyze_style ::
  "(string \<Rightarrow> string option) \<Rightarrow> string \<Rightarrow> LanguageType \<Rightarrow> datetime \<Rightarrow> CodeAnalysisResult" where
  "analyze_style pylint code lang now =
     (if lang \<noteq> PYTHON then basic_style_analysis code lang now
      else case pylint code of
        None \<Rightarrow> basic_style_analysis code lang now
      | Some pylint_result \<Rightarrow>
          (let findings = pylint_findings pylint_result;
               issues =
                 map (\<lambda>(line_num, message).
                        [(''type'', PyStr ''style_issue''), (''line'', PyStr line_num),
                         (''message'', PyStr message), (''severity'', PyStr ''medium'')]) findings;
               suggestions =
                 map (\<lambda>(line_num, message). ''Line '' @ line_num @ '': '' @ message) findings;
               score = max 0 (100 - int (length issues) * 2)
           in \<lparr>file_path = ''<string>'', language = lang, analysis_type = STYLE,
               score = of_int score, issues = issues, suggestions = suggestions,
               metrics =
                 [(''total_issues'', PyInt (int (length issues))),
                  (''lines_analyzed'', PyInt (int (length (str_split CHR 0x0A code)))),
                  (''pylint_score'', PyInt score)],
               timestamp = now\<rparr>))"

section \<open>Bug detection of \<^verbatim>\<open>src/app.py\<close>\<close>

datatype TaskType =
    CODE_GENERATION | CODE_COMPLETION | BUG_DETECTION | DOCUMENTATION | CODE_REVIEW
  | OPTIMIZATION

text \<open>
  The \<^verbatim>\<open>context\<close> of a request is the field \<open>req_context\<close>: the name is an
  Isabelle keyword. Fields that several records share are written with the record's name
  (\<open>CodeRequest.language\<close>) wherever the last record declared is not the one meant.
\<close>

record CodeRequest =
  task_type :: TaskType
  language :: string
  prompt :: string
  code :: "string option"
  req_context :: "string option"

record CodeResponse =
  task_type :: TaskType
  language :: string
  result :: string
  suggestions :: "string list"
  confidence :: rat
  timestamp :: datetime

datatype error = ValueError string

text \<open>
  \<^verbatim>\<open>if not request.code\<close> holds for \<^verbatim>\<open>None\<close> and for the empty string.
\<close>

definition detect_bugs :: "CodeRequest \<Rightarrow> datetime \<Rightarrow> error + CodeResponse" where
  "detect_bugs request now =
     (case code request of
        None \<Rightarrow> Inl (ValueError ''Code is required for bug detection'')
      | Some src \<Rightarrow>
          if src = [] then Inl (ValueError ''Code is required for bug detection'')
          else
            (let python_bugs =
                   (if str_lower (CodeRequest.language request) = ''python''
                    then (if str_in ''except:'' src
                          then [''Bare except clause detected - should catch specific exceptions'']
                          else [])
                       @ (if str_in ''eval('' src
                          then [''Use of eval() detected - potential security risk'']
                          else [])
                       @ (if str_in ''input('' src \<and> str_in ''int('' src
                          then [''Potential ValueError if non-numeric input provided'']
                          else [])
                    else []);
                 javascript_bugs =
                   (if str_lower (CodeRequest.language request) = ''javascript''
                    then (if str_in ''=='' src \<and> \<not> str_in ''==='' src
                          then [''Use === instead of == for strict equality'']
                          else [])
                       @ (if str_in ''var '' src
                          then [''Consider using '' @ [CHR 0x27] @ ''let'' @ [CHR 0x27] @ '' or ''
                                @ [CHR 0x27] @ ''const'' @ [CHR 0x27] @ '' instead of ''
                                @ [CHR 0x27] @ ''var'' @ [CHR 0x27]]
                          else [])
                    else []);
                 bugs_found = python_bugs @ javascript_bugs
             in Inr \<lparr>task_type = CodeRequest.task_type request,
                     language = CodeRequest.language request,
                     result =
                       (if bugs_found \<noteq> []
                        then ''Potential issues found:'' @ [CHR 0x0A]
                             @ str_join [CHR 0x0A] (map (\<lambda>bug. ''- '' @ bug) bugs_found)
                        else ''No obvious issues detected. Code looks good!''),
                     suggestions =
                       (if bugs_found \<noteq> []
                        then [''Fix the identified issues'', ''Add proper error handling'',
                              ''Consider using a linter for additional checks'']
                        else [''Consider adding unit tests'', ''Review for edge cases'',
                              ''Use a comprehensive linter for thorough analysis'']),
                     confidence = 7 / 10,
                     timestamp = now\<rparr>))"

section \<open>Inputs of the examples\<close>

text \<open>A line of JavaScript with two of the security patterns, one of them in upper case.\<close>

definition dom_sink_code :: string where
  "dom_sink_code = ''el.innerHTML = EVAL(userInput);''"

text \<open>A text with every security pattern.\<close>

definition all_patterns_code :: string where
  "all_patterns_code =
     ''SELECT INSERT UPDATE DELETE innerHTML document.write eval password api_key secret token exec system shell_exec''"

text \<open>A line of 121 characters followed by a short line.\<close>

definition long_line_code :: string where
  "long_line_code = replicate 121 (CHR ''a'') @ [CHR 0x0A] @ ''short''"

text \<open>The code with the bare exception handler, and the request of the repository's test.\<close>

definition bare_except_code :: string where
  "bare_except_code =
     ''try:'' @ [CHR 0x0A] @ ''    x = int(input())'' @ [CHR 0x0A] @ ''except:'' @ [CHR 0x0A]
     @ ''    pass''"


definition bare_except_request :: CodeRequest where
  "bare_except_request =
     \<lparr>CodeRequest.task_type = BUG_DETECTION, CodeRequest.language = ''python'',
      prompt = ''Find bugs'', code = Some bare_except_code, req_context = None\<rparr>"

section \<open>Collaboration sessions\<close>

record CollaborationSession =
  session_id :: string
  participants :: "string list"
  code_content :: string
  language :: LanguageType
  created_at :: datetime
  last_modified :: datetime
  is_active :: bool

section \<open>The session store of \<^verbatim>\<open>CodeAssistant\<close>\<close>

text \<open>
  \<^verbatim>\<open>self.collaboration_sessions\<close> is a dict from session identifier to session
  object. The only statement that stores into it is the one of
  \<^verbatim>\<open>create_collaboration_session\<close>, with an object built on the line above, so no
  two keys ever share an object and the dict is a map from identifier to session value.
  The three methods touch no other attribute of the assistant.
\<close>

record CodeAssistant =
  collaboration_sessions :: "string \<rightharpoonup> CollaborationSession"

definition create_collaboration_session ::
  "string \<Rightarrow> string \<Rightarrow> LanguageType \<Rightarrow> datetime \<Rightarrow> datetime \<Rightarrow> CodeAssistant
     \<Rightarrow> CollaborationSession \<times> CodeAssistant" where
  "create_collaboration_session sid initial_code lang now1 now2 self =
     (let session = \<lparr>session_id = sid, participants = [], code_content = initial_code,
                      language = lang, created_at = now1, last_modified = now2,
                      is_active = True\<rparr>
      in (session,
          self\<lparr>collaboration_sessions := (collaboration_sessions self)(sid \<mapsto> session)\<rparr>))"

definition join_collaboration_session ::
  "string \<Rightarrow> string \<Rightarrow> CodeAssistant \<Rightarrow> CollaborationSession option \<times> CodeAssistant" where
  "join_collaboration_session sid user_id self =
     (case collaboration_sessions self sid of
        Some session \<Rightarrow>
          (let session' =
                 (if user_id \<notin> set (participants session)
                  then session\<lparr>participants := participants session @ [user_id]\<rparr>
                  else session)
           in (Some session',
               self\<lparr>collaboration_sessions := (collaboration_sessions self)(sid \<mapsto> session')\<rparr>))
      | None \<Rightarrow> (None, self))"

definition update_collaboration_code ::
  "string \<Rightarrow> string \<Rightarrow> string \<Rightarrow> datetime \<Rightarrow> CodeAssistant \<Rightarrow> bool \<times> CodeAssistant" where
  "update_collaboration_code sid new_code user_id now self =
     (case collaboration_sessions self sid of
        Some session \<Rightarrow>
          (True,
           self\<lparr>collaboration_sessions :=
                  (collaboration_sessions self)
                    (sid \<mapsto> session\<lparr>code_content := new_code, last_modified := now\<rparr>)\<rparr>)
      | None \<Rightarrow> (False, self))"

text \<open>The assistant as \<^verbatim>\<open>__init__\<close> leaves it: no session.\<close>

definition init_assistant :: CodeAssistant where
  "init_assistant = \<lparr>collaboration_sessions = Map.empty\<rparr>"

text \<open>
  A store holding the session \<^verbatim>\<open>s1\<close> with content \<^verbatim>\<open>a=1\<close> and the
  participants \<^verbatim>\<open>p1\<close> and \<^verbatim>\<open>p2\<close>, built by the methods themselves.
\<close>

definition store_s1 :: CodeAssistant where
  "store_s1 =
     snd (join_collaboration_session ''s1'' ''p2''
       (snd (join_collaboration_session ''s1'' ''p1''
         (snd (create_collaboration_session ''s1'' ''a=1'' PYTHON 1 2 init_assistant)))))"

text \<open>
  The same store after a caller cleared the public \<^verbatim>\<open>is_active\<close> field of the
  session object that \<^verbatim>\<open>join_collaboration_session\<close> handed out.
\<close>

definition store_s1_inactive :: CodeAssistant where
  "store_s1_inactive =
     store_s1\<lparr>collaboration_sessions :=
       map_option (\<lambda>s. s\<lparr>is_active := False\<rparr>) \<circ> collaboration_sessions store_s1\<rparr>"

text \<open>The store \<^const>\<open>store_s1\<close> with a second session \<^verbatim>\<open>s2\<close> created beside it.\<close>

definition store_s1_s2 :: CodeAssistant where
  "store_s1_s2 = snd (create_collaboration_session ''s2'' ''b=0'' JAVASCRIPT 3 4 store_s1)"

section \<open>Session store: results\<close>

lemma store_s1_lookup:
  "collaboration_sessions store_s1 ''s1'' =
     Some \<lparr>session_id = ''s1'', participants = [''p1'', ''p2''], code_content = ''a=1'',
           language = PYTHON, created_at = 1, last_modified = 2, is_active = True\<rparr>"
  by (simp add: store_s1_def init_assistant_def create_collaboration_session_def
      join_collaboration_session_def Let_def)

lemma store_s1_inactive_lookup:
  "collaboration_sessions store_s1_inactive ''s1'' =
     Some \<lparr>session_id = ''s1'', participants = [''p1'', ''p2''], code_content = ''a=1'',
           language = PYTHON, created_at = 1, last_modified = 2, is_active = False\<rparr>"
  by (simp add: store_s1_inactive_def store_s1_lookup)


lemma store_s1_s2_lookup_s1:
  "collaboration_sessions store_s1_s2 ''s1'' = collaboration_sessions store_s1 ''s1''"
  by (simp add: store_s1_s2_def create_collaboration_session_def Let_def)

lemma store_s1_s2_lookup_s2:
  "collaboration_sessions store_s1_s2 ''s2'' =
     Some \<lparr>session_id = ''s2'', participants = [], code_content = ''b=0'',
           language = JAVASCRIPT, created_at = 3, last_modified = 4, is_active = True\<rparr>"
  by (simp add: store_s1_s2_def create_collaboration_session_def Let_def)

subsection \<open>Updating the content of a session\<close>

text \<open>
  Claim C7. When the identifier has a session in the store, the update succeeds, the stored
  session has the new code as its content and the update time as its last-modified field,
  its identifier, participant list, language, creation time and active flag are the ones it
  had, and every other identifier of the store maps to what it mapped to before.
\<close>

theorem update_replaces_content_frame:
  assumes "collaboration_sessions self sid = Some s"
  shows "fst (update_collaboration_code sid new_code user_id now self)
    \<and> map_option code_content
         (collaboration_sessions (snd (update_collaboration_code sid new_code user_id now self)) sid)
       = Some new_code
    \<and> map_option last_modified
         (collaboration_sessions (snd (update_collaboration_code sid new_code user_id now self)) sid)
       = Some now
    \<and> map_option session_id
         (collaboration_sessions (snd (update_collaboration_code sid new_code user_id now self)) sid)
       = Some (session_id s)
    \<and> map_option participants
         (collaboration_sessions (snd (update_collaboration_code sid new_code user_id now self)) sid)
       = Some (participants s)
    \<and> map_option language
         (collaboration_sessions (snd (update_collaboration_code sid new_code user_id now self)) sid)
       = Some (language s)
    \<and> map_option created_at
         (collaboration_sessions (snd (update_collaboration_code sid new_code user_id now self)) sid)
       = Some (created_at s)
    \<and> map_option is_active
         (collaboration_sessions (snd (update_collaboration_code sid new_code user_id now self)) sid)
       = Some (is_active s)
    \<and> (\<forall>sid'. sid' \<noteq> sid \<longrightarrow>
          collaboration_sessions (snd (update_collaboration_code sid new_code user_id now self)) sid'
          = collaboration_sessions self sid')"
  using assms by (simp add: update_collaboration_code_def)

theorem update_replaces_content_frame_witness:
  "collaboration_sessions store_s1_s2 ''s1'' =
     Some \<lparr>session_id = ''s1'', participants = [''p1'', ''p2''], code_content = ''a=1'',
           language = PYTHON, created_at = 1, last_modified = 2, is_active = True\<rparr>
   \<and> fst (update_collaboration_code ''s1'' ''a=2'' ''p1'' 7 store_s1_s2)
   \<and> collaboration_sessions (snd (update_collaboration_code ''s1'' ''a=2'' ''p1'' 7 store_s1_s2)) ''s1''
       = Some \<lparr>session_id = ''s1'', participants = [''p1'', ''p2''], code_content = ''a=2'',
               language = PYTHON, created_at = 1, last_modified = 7, is_active = True\<rparr>
   \<and> collaboration_sessions (snd (update_collaboration_code ''s1'' ''a=2'' ''p1'' 7 store_s1_s2)) ''s2''
       = collaboration_sessions store_s1_s2 ''s2''"
proof -
  let ?s = "\<lparr>session_id = ''s1'', participants = [''p1'', ''p2''], code_content = ''a=1'',
           language = PYTHON, created_at = 1, last_modified = 2, is_active = True\<rparr>"
  let ?r = "update_collaboration_code ''s1'' ''a=2'' ''p1'' 7 store_s1_s2"
  have look: "collaboration_sessions store_s1_s2 ''s1'' = Some ?s"
    by (simp add: store_s1_s2_lookup_s1 store_s1_lookup)
  note fr = update_replaces_content_frame [OF look, of "''a=2''" "''p1''" 7]
  from fr have other: "collaboration_sessions (snd ?r) ''s2'' = collaboration_sessions store_s1_s2 ''s2''"
    by simp
  have here: "collaboration_sessions (snd ?r) ''s1'' = Some (?s\<lparr>code_content := ''a=2'', last_modified := 7\<rparr>)"
    by (simp add: update_collaboration_code_def look)
  from fr have ok: "fst ?r" by simp
  from look ok here other show ?thesis by simp
qed

text \<open>
  Claim C10. The \<^verbatim>\<open>user_id\<close> argument is never read: for a session that exists, the
  update succeeds and stores the new code for every user, a participant of the session or
  not, and two calls that differ only in the user give the same result and the same store.
\<close>

theorem update_ignores_user_id:
  assumes "collaboration_sessions self sid = Some s"
  shows "fst (update_collaboration_code sid new_code user_id now self)
    \<and> map_option code_content
         (collaboration_sessions (snd (update_collaboration_code sid new_code user_id now self)) sid)
       = Some new_code
    \<and> update_collaboration_code sid new_code user_id now self
       = update_collaboration_code sid new_code user_id' now self"
  using assms by (simp add: update_collaboration_code_def)

theorem update_ignores_user_id_witness:
  "map_option participants (collaboration_sessions store_s1 ''s1'') = Some [''p1'', ''p2'']
   \<and> fst (update_collaboration_code ''s1'' ''a=2'' ''stranger'' 7 store_s1)
   \<and> map_option code_content
        (collaboration_sessions (snd (update_collaboration_code ''s1'' ''a=2'' ''stranger'' 7 store_s1)) ''s1'')
       = Some ''a=2''
   \<and> update_collaboration_code ''s1'' ''a=2'' ''stranger'' 7 store_s1
       = update_collaboration_code ''s1'' ''a=2'' ''p1'' 7 store_s1"
proof -
  have p: "map_option participants (collaboration_sessions store_s1 ''s1'') = Some [''p1'', ''p2'']"
    by (simp add: store_s1_lookup)
  from p update_ignores_user_id [OF store_s1_lookup, of "''a=2''" "''stranger''" 7 "''p1''"]
  show ?thesis by blast
qed

subsection \<open>Updating a session whose active flag is cleared\<close>

text \<open>
  Claim C2 says that an update of a deactivated session returns false and leaves the
  content as it was. \<^verbatim>\<open>update_collaboration_code\<close> never reads \<^verbatim>\<open>is_active\<close>:
  on the store whose session \<^verbatim>\<open>s1\<close> has the flag cleared it returns true and the
  content \<^verbatim>\<open>a=1\<close> becomes \<^verbatim>\<open>a=2\<close>.
\<close>

theorem update_inactive_counterexample:
  "map_option is_active (collaboration_sessions store_s1_inactive ''s1'') = Some False
   \<and> map_option code_content (collaboration_sessions store_s1_inactive ''s1'') = Some ''a=1''
   \<and> fst (update_collaboration_code ''s1'' ''a=2'' ''p1'' 7 store_s1_inactive) = True
   \<and> map_option code_content
        (collaboration_sessions (snd (update_collaboration_code ''s1'' ''a=2'' ''p1'' 7 store_s1_inactive)) ''s1'')
       = Some ''a=2''"
  by (simp add: update_collaboration_code_def store_s1_inactive_lookup)

text \<open>
  Claim C2, amended. The update returns true exactly when the identifier has a session in
  the store, whatever the session's active flag: then the new code is stored and the flag
  is kept as it was. When the identifier has no session the update returns false and the
  store is unchanged.
\<close>

theorem update_succeeds_iff_session_exists:
  "(fst (update_collaboration_code sid new_code user_id now self)
      \<longleftrightarrow> sid \<in> dom (collaboration_sessions self))
   \<and> (sid \<notin> dom (collaboration_sessions self) \<longrightarrow>
        snd (update_collaboration_code sid new_code user_id now self) = self)
   \<and> (\<forall>s. collaboration_sessions self sid = Some s \<longrightarrow>
        map_option code_content
          (collaboration_sessions (snd (update_collaboration_code sid new_code user_id now self)) sid)
        = Some new_code
        \<and> map_option is_active
          (collaboration_sessions (snd (update_collaboration_code sid new_code user_id now self)) sid)
        = Some (is_active s))"
  by (auto simp: update_collaboration_code_def split: option.splits)

theorem update_succeeds_iff_session_exists_witness:
  "''s1'' \<in> dom (collaboration_sessions store_s1_inactive)
   \<and> fst (update_collaboration_code ''s1'' ''a=2'' ''p1'' 7 store_s1_inactive)
   \<and> map_option code_content
        (collaboration_sessions (snd (update_collaboration_code ''s1'' ''a=2'' ''p1'' 7 store_s1_inactive)) ''s1'')
       = Some ''a=2''
   \<and> map_option is_active
        (collaboration_sessions (snd (update_collaboration_code ''s1'' ''a=2'' ''p1'' 7 store_s1_inactive)) ''s1'')
       = Some False
   \<and> ''s9'' \<notin> dom (collaboration_sessions init_assistant)
   \<and> \<not> fst (update_collaboration_code ''s9'' ''a=2'' ''p1'' 7 init_assistant)
   \<and> snd (update_collaboration_code ''s9'' ''a=2'' ''p1'' 7 init_assistant) = init_assistant"
proof -
  have ex: "''s1'' \<in> dom (collaboration_sessions store_s1_inactive)"
    by (simp add: store_s1_inactive_lookup domIff)
  have nex: "''s9'' \<notin> dom (collaboration_sessions init_assistant)"
    by (simp add: init_assistant_def)
  note a = update_succeeds_iff_session_exists [of "''s1''" "''a=2''" "''p1''" 7 store_s1_inactive]
  note b = update_succeeds_iff_session_exists [of "''s9''" "''a=2''" "''p1''" 7 init_assistant]
  from a ex have a1: "fst (update_collaboration_code ''s1'' ''a=2'' ''p1'' 7 store_s1_inactive)"
    by blast
  from a store_s1_inactive_lookup have a2:
    "map_option code_content
        (collaboration_sessions (snd (update_collaboration_code ''s1'' ''a=2'' ''p1'' 7 store_s1_inactive)) ''s1'')
       = Some ''a=2''
     \<and> map_option is_active
        (collaboration_sessions (snd (update_collaboration_code ''s1'' ''a=2'' ''p1'' 7 store_s1_inactive)) ''s1'')
       = Some False"
    by simp
  from b nex have b1: "\<not> fst (update_collaboration_code ''s9'' ''a=2'' ''p1'' 7 init_assistant)"
    by blast
  from b nex have b2: "snd (update_collaboration_code ''s9'' ''a=2'' ''p1'' 7 init_assistant) = init_assistant"
    by blast
  from ex nex a1 a2 b1 b2 show ?thesis by simp
qed

subsection \<open>Joining a session\<close>

text \<open>
  Claim C8. Joining under an identifier that has no session in the store returns no
  session (\<^verbatim>\<open>None\<close>, the method's way of reporting that the session was not found)
  and the store is the one it was: nothing is created and nothing is modified.
\<close>

theorem join_missing_returns_none:
  assumes "collaboration_sessions self sid = None"
  shows "join_collaboration_session sid user_id self = (None, self)"
  using assms by (simp add: join_collaboration_session_def)

theorem join_missing_returns_none_witness:
  "collaboration_sessions store_s1 ''s9'' = None
   \<and> join_collaboration_session ''s9'' ''p1'' store_s1 = (None, store_s1)"
proof -
  have nex: "collaboration_sessions store_s1 ''s9'' = None"
    by (simp add: store_s1_def init_assistant_def create_collaboration_session_def
        join_collaboration_session_def Let_def)
  from nex join_missing_returns_none [OF nex, of "''p1''"] show ?thesis by simp
qed

subsection \<open>Creating a session under an identifier in use\<close>

text \<open>
  Claim C3 says that creating a session under an identifier that has an active session
  fails and keeps the existing session. \<^verbatim>\<open>create_collaboration_session\<close> has no
  check and no failure: on the store whose active session \<^verbatim>\<open>s1\<close> has two
  participants and the content \<^verbatim>\<open>a=1\<close> it returns a session, and afterwards
  \<^verbatim>\<open>s1\<close> has no participant and the content \<^verbatim>\<open>b=2\<close>.
\<close>

theorem create_duplicate_counterexample:
  "map_option is_active (collaboration_sessions store_s1 ''s1'') = Some True
   \<and> map_option participants (collaboration_sessions store_s1 ''s1'') = Some [''p1'', ''p2'']
   \<and> map_option code_content (collaboration_sessions store_s1 ''s1'') = Some ''a=1''
   \<and> fst (create_collaboration_session ''s1'' ''b=2'' JAVASCRIPT 8 9 store_s1)
       = \<lparr>session_id = ''s1'', participants = [], code_content = ''b=2'',
          language = JAVASCRIPT, created_at = 8, last_modified = 9, is_active = True\<rparr>
   \<and> map_option participants
        (collaboration_sessions
          (snd (create_collaboration_session ''s1'' ''b=2'' JAVASCRIPT 8 9 store_s1)) ''s1'')
       = Some []
   \<and> map_option code_content
        (collaboration_sessions
          (snd (create_collaboration_session ''s1'' ''b=2'' JAVASCRIPT 8 9 store_s1)) ''s1'')
       = Some ''b=2''"
  by (simp add: create_collaboration_session_def store_s1_lookup Let_def)

text \<open>
  Claim C3, amended. Creating a session never fails, whether or not the identifier is in
  use: it returns a new active session with the given identifier, content and language and
  an empty participant list, stores it under the identifier in place of whatever was stored
  there, and leaves every other identifier of the store as it was.
\<close>

theorem create_always_stores_new_session:
  "fst (create_collaboration_session sid initial_code lang now1 now2 self)
     = \<lparr>session_id = sid, participants = [], code_content = initial_code, language = lang,
        created_at = now1, last_modified = now2, is_active = True\<rparr>
   \<and> collaboration_sessions (snd (create_collaboration_session sid initial_code lang now1 now2 self)) sid
     = Some (fst (create_collaboration_session sid initial_code lang now1 now2 self))
   \<and> (\<forall>sid'. sid' \<noteq> sid \<longrightarrow>
        collaboration_sessions (snd (create_collaboration_session sid initial_code lang now1 now2 self)) sid'
        = collaboration_sessions self sid')"
  by (simp add: create_collaboration_session_def Let_def)

theorem create_always_stores_new_session_witness:
  "collaboration_sessions store_s1_s2 ''s1'' \<noteq> None
   \<and> collaboration_sessions
        (snd (create_collaboration_session ''s1'' ''b=2'' JAVASCRIPT 8 9 store_s1_s2)) ''s1''
     = Some \<lparr>session_id = ''s1'', participants = [], code_content = ''b=2'',
             language = JAVASCRIPT, created_at = 8, last_modified = 9, is_active = True\<rparr>
   \<and> collaboration_sessions
        (snd (create_collaboration_session ''s1'' ''b=2'' JAVASCRIPT 8 9 store_s1_s2)) ''s2''
     = collaboration_sessions store_s1_s2 ''s2''"
  using create_always_stores_new_session [of "''s1''" "''b=2''" JAVASCRIPT 8 9 store_s1_s2]
  by (simp add: store_s1_s2_lookup_s1 store_s1_lookup)

section \<open>Python string operations: facts\<close>

lemma str_split_not_Nil: "str_split sep s \<noteq> []"
  by (induction s) (auto split: list.splits)

lemma str_split_no_sep: "sep \<notin> set xs \<Longrightarrow> str_split sep xs = [xs]"
  by (induction xs) auto

lemma str_split_append:
  "sep \<notin> set xs \<Longrightarrow> str_split sep (xs @ sep # ys) = xs # str_split sep ys"
  by (induction xs) auto

text \<open>A string strips to a non-empty one exactly when one of its characters is no space.\<close>

lemma str_strip_nonempty_iff: "str_strip s \<noteq> [] \<longleftrightarrow> (\<exists>c\<in>set s. \<not> is_space c)"
proof -
  have "str_strip s \<noteq> [] \<longleftrightarrow> (\<exists>c\<in>set (dropWhile is_space s). \<not> is_space c)"
    by (simp add: str_strip_def)
  also have "\<dots> \<longleftrightarrow> (\<exists>c\<in>set s. \<not> is_space c)"
  proof
    assume "\<exists>c\<in>set (dropWhile is_space s). \<not> is_space c"
    then show "\<exists>c\<in>set s. \<not> is_space c" by (blast dest: set_dropWhileD)
  next
    assume "\<exists>c\<in>set s. \<not> is_space c"
    then have ne: "dropWhile is_space s \<noteq> []" by simp
    then have "\<not> is_space (hd (dropWhile is_space s))" by (rule hd_dropWhile)
    with ne show "\<exists>c\<in>set (dropWhile is_space s). \<not> is_space c"
      using hd_in_set by blast
  qed
  finally show ?thesis .
qed

lemma char_lower_idem: "char_lower (char_lower c) = char_lower c"
  by (auto simp: char_lower_def Let_def of_char_of)

lemma str_lower_idem: "str_lower (str_lower s) = str_lower s"
  by (simp add: str_lower_def char_lower_idem)

lemma sum_list_guard_ones:
  "sum_list (concat (map (\<lambda>x. if Q x then [1 :: nat] else []) xs)) = length (filter Q xs)"
  by (induction xs) auto

lemma sum_list_nested_guard_ones:
  "sum_list (concat (map (\<lambda>l. concat (map (\<lambda>k. if Q k l then [1 :: nat] else []) ks)) ls))
   = (\<Sum>l\<leftarrow>ls. length (filter (\<lambda>k. Q k l) ks))"
  by (induction ls) (auto simp: sum_list_guard_ones)

section \<open>Analyses: the range of the scores\<close>

lemma basic_complexity_score_range:
  "0 \<le> score (basic_complexity_analysis src lang now)
   \<and> score (basic_complexity_analysis src lang now) \<le> 100"
  by (simp add: basic_complexity_analysis_def Let_def)

lemma basic_security_score_range:
  "0 \<le> score (basic_security_analysis src lang now)
   \<and> score (basic_security_analysis src lang now) \<le> 100"
  by (simp add: basic_security_analysis_def Let_def)

lemma basic_style_score_range:
  "0 \<le> score (basic_style_analysis src lang now)
   \<and> score (basic_style_analysis src lang now) \<le> 100"
  by (simp add: basic_style_analysis_def Let_def)

lemma analyze_complexity_score_range:
  "0 \<le> score (analyze_complexity radon src lang now)
   \<and> score (analyze_complexity radon src lang now) \<le> 100"
  by (auto simp: analyze_complexity_def basic_complexity_score_range Let_def
      split: option.splits)

lemma analyze_security_score_range:
  "0 \<le> score (analyze_security bandit src lang now)
   \<and> score (analyze_security bandit src lang now) \<le> 100"
  by (auto simp: analyze_security_def basic_security_score_range Let_def
      split: option.splits)

lemma analyze_style_score_range:
  "0 \<le> score (analyze_style pylint src lang now)
   \<and> score (analyze_style pylint src lang now) \<le> 100"
  by (auto simp: analyze_style_def basic_style_score_range Let_def split: option.splits)

section \<open>The fallback complexity analysis\<close>

lemma complexity_indicators_set:
  "set complexity_indicators
   = {''if'', ''else'', ''for'', ''while'', ''switch'', ''case'', ''try'', ''catch''}"
  by (simp add: complexity_indicators_def)

lemma complexity_indicators_distinct: "distinct complexity_indicators"
  by (simp add: complexity_indicators_def)

lemma length_filter_card: "distinct xs \<Longrightarrow> length (filter P xs) = card {k \<in> set xs. P k}"
proof -
  assume "distinct xs"
  then have "length (filter P xs) = card ({k. P k} \<inter> set xs)"
    by (rule distinct_length_filter)
  also have "{k. P k} \<inter> set xs = {k \<in> set xs. P k}" by blast
  finally show ?thesis .
qed

lemma indicators_in_line:
  "length (filter P complexity_indicators)
   = card {k \<in> {''if'', ''else'', ''for'', ''while'', ''switch'', ''case'', ''try'', ''catch''}. P k}"
  using length_filter_card [OF complexity_indicators_distinct, of P]
  by (simp only: complexity_indicators_set)

text \<open>
  What \<^verbatim>\<open>complexity_count\<close> is: for every line with a character that is no space,
  the number of keywords that occur somewhere in the lower-cased line.
\<close>

lemma basic_complexity_count:
  "sum_list [1 :: nat. line \<leftarrow> filter (\<lambda>line. str_strip line \<noteq> []) (str_split CHR 0x0A src),
             indicator \<leftarrow> complexity_indicators, str_in indicator (str_lower line)]
   = (\<Sum>line \<leftarrow> filter (\<lambda>l. \<exists>c\<in>set l. \<not> is_space c) (str_split CHR 0x0A src).
        card {k \<in> {''if'', ''else'', ''for'', ''while'', ''switch'', ''case'', ''try'', ''catch''}.
              str_in k (str_lower line)})"
  by (simp add: sum_list_nested_guard_ones indicators_in_line str_strip_nonempty_iff)

lemma basic_complexity_result:
  "let count = (\<Sum>line \<leftarrow> filter (\<lambda>l. \<exists>c\<in>set l. \<not> is_space c) (str_split CHR 0x0A src).
        card {k \<in> {''if'', ''else'', ''for'', ''while'', ''switch'', ''case'', ''try'', ''catch''}.
              str_in k (str_lower line)})
   in score (basic_complexity_analysis src lang now) = of_int (max 0 (100 - 2 * int count))
   \<and> issues (basic_complexity_analysis src lang now) = []
   \<and> CodeAnalysisResult.suggestions (basic_complexity_analysis src lang now)
      = (if count > 10
         then [''Consider simplifying complex logic (found '' @ str_of_nat count
               @ '' complexity indicators)'']
         else [])"
  unfolding basic_complexity_analysis_def Let_def basic_complexity_count
  by (simp add: mult.commute)

subsection \<open>The line with two \<^verbatim>\<open>if\<close>\<close>

lemma else_if_line_lines: "str_split CHR 0x0A else_if_line = [else_if_line]"
  by (rule str_split_no_sep) (simp add: else_if_line_def)

lemma else_if_line_not_blank: "\<exists>c\<in>set else_if_line. \<not> is_space c"
  by (simp add: else_if_line_def is_space_def)

lemma else_if_line_lower: "str_lower else_if_line = else_if_line"
  unfolding else_if_line_def by code_simp

lemma else_if_line_hits:
  "filter (\<lambda>k. str_in k else_if_line) complexity_indicators = [''if'', ''else'']"
  unfolding else_if_line_def by code_simp

lemma else_if_line_occurrences:
  "map (\<lambda>k. count_occurrences k else_if_line) complexity_indicators = [2, 1, 0, 0, 0, 0, 0, 0]"
  unfolding else_if_line_def by code_simp

lemma else_if_line_spec: "spec_keyword_occurrences else_if_line = 3"
  by (simp add: spec_keyword_occurrences_def else_if_line_lines str_strip_nonempty_iff
      else_if_line_not_blank else_if_line_lower else_if_line_occurrences)

lemma else_if_line_count:
  "(\<Sum>line \<leftarrow> filter (\<lambda>l. \<exists>c\<in>set l. \<not> is_space c) (str_split CHR 0x0A else_if_line).
      card {k \<in> {''if'', ''else'', ''for'', ''while'', ''switch'', ''case'', ''try'', ''catch''}.
            str_in k (str_lower line)}) = 2"
proof -
  have f: "filter (\<lambda>l. \<exists>c\<in>set l. \<not> is_space c) [else_if_line] = [else_if_line]"
    using else_if_line_not_blank by simp
  show ?thesis
    unfolding else_if_line_lines f
    by (simp only: list.map sum_list.Cons sum_list.Nil else_if_line_lower
        indicators_in_line [symmetric] else_if_line_hits) simp
qed

subsection \<open>The two lines with every keyword\<close>

lemma keywords_twice_lines: "str_split CHR 0x0A keywords_twice = [keywords_line, keywords_line]"
proof -
  have n: "CHR 0x0A \<notin> set keywords_line" by (simp add: keywords_line_def)
  have e: "keywords_twice = keywords_line @ CHR 0x0A # keywords_line"
    by (simp add: keywords_twice_def)
  show ?thesis by (simp only: e str_split_append [OF n] str_split_no_sep [OF n])
qed

lemma keywords_line_not_blank: "\<exists>c\<in>set keywords_line. \<not> is_space c"
  by (simp add: keywords_line_def is_space_def)

lemma keywords_line_lower: "str_lower keywords_line = keywords_line"
  unfolding keywords_line_def by code_simp

lemma keywords_line_hits:
  "filter (\<lambda>k. str_in k keywords_line) complexity_indicators = complexity_indicators"
  unfolding keywords_line_def by code_simp

lemma keywords_twice_count:
  "(\<Sum>line \<leftarrow> filter (\<lambda>l. \<exists>c\<in>set l. \<not> is_space c) (str_split CHR 0x0A keywords_twice).
      card {k \<in> {''if'', ''else'', ''for'', ''while'', ''switch'', ''case'', ''try'', ''catch''}.
            str_in k (str_lower line)}) = 16"
proof -
  have f: "filter (\<lambda>l. \<exists>c\<in>set l. \<not> is_space c) [keywords_line, keywords_line]
           = [keywords_line, keywords_line]"
    using keywords_line_not_blank by simp
  show ?thesis
    unfolding keywords_twice_lines f
    by (simp only: list.map sum_list.Cons sum_list.Nil keywords_line_lower
        indicators_in_line [symmetric] keywords_line_hits) (simp add: complexity_indicators_def)
qed

lemma str_of_nat_16: "str_of_nat 16 = ''16''"
  by code_simp

subsection \<open>The score of the fallback complexity analysis\<close>

text \<open>
  Claim C4 computes the score from the number of occurrences of the keywords in the
  non-blank lines. The analysis counts a keyword once for a line however often the line has
  it: the line \<^const>\<open>else_if_line\<close> has three occurrences (\<^verbatim>\<open>if\<close> twice,
  \<^verbatim>\<open>else\<close> once), which would give 94, and the analysis counts two and scores 96.
\<close>

theorem fallback_complexity_occurrences_counterexample:
  "spec_keyword_occurrences else_if_line = 3
   \<and> score (analyze_complexity (\<lambda>_. None) else_if_line JAVASCRIPT 0) = 96
   \<and> score (analyze_complexity (\<lambda>_. None) else_if_line JAVASCRIPT 0)
      \<noteq> of_int (max 0 (100 - 2 * int (spec_keyword_occurrences else_if_line)))"
proof -
  have "score (basic_complexity_analysis else_if_line JAVASCRIPT 0) = 96"
    using basic_complexity_result [of else_if_line JAVASCRIPT 0]
    unfolding Let_def else_if_line_count by simp
  then have s: "score (analyze_complexity (\<lambda>_. None) else_if_line JAVASCRIPT 0) = 96"
    by (simp add: analyze_complexity_def)
  show ?thesis unfolding s else_if_line_spec by simp
qed

text \<open>
  Claim C4, amended. For code in a language other than Python the complexity analysis
  scores \<open>max 0 (100 - 2 * count)\<close>, where \<open>count\<close> adds up, over the lines that have
  a character that is no space, the number of the eight keywords that occur somewhere in the
  lower-cased line (inside a longer word or not, once for a line however often they occur
  in it). It reports no issue, and its suggestions are the one generic suggestion when
  \<open>count\<close> is above 10 and none otherwise.
\<close>

theorem fallback_complexity_counts_lines_with_keyword:
  assumes "lang \<noteq> PYTHON"
  shows "let r = analyze_complexity radon src lang now;
             count = (\<Sum>line \<leftarrow> filter (\<lambda>l. \<exists>c\<in>set l. \<not> is_space c) (str_split CHR 0x0A src).
                        card {k \<in> {''if'', ''else'', ''for'', ''while'', ''switch'', ''case'',
                                    ''try'', ''catch''}. str_in k (str_lower line)})
         in score r = of_int (max 0 (100 - 2 * int count))
            \<and> issues r = []
            \<and> CodeAnalysisResult.suggestions r
               = (if count > 10
                  then [''Consider simplifying complex logic (found '' @ str_of_nat count
                        @ '' complexity indicators)'']
                  else [])"
  using assms basic_complexity_result [of src lang now]
  by (simp add: analyze_complexity_def Let_def)

theorem fallback_complexity_counts_lines_with_keyword_witness:
  "JAVASCRIPT \<noteq> PYTHON
   \<and> score (analyze_complexity (\<lambda>_. None) else_if_line JAVASCRIPT 0) = 96
   \<and> CodeAnalysisResult.suggestions (analyze_complexity (\<lambda>_. None) else_if_line JAVASCRIPT 0) = []
   \<and> score (analyze_complexity (\<lambda>_. None) keywords_twice JAVASCRIPT 0) = 68
   \<and> CodeAnalysisResult.suggestions (analyze_complexity (\<lambda>_. None) keywords_twice JAVASCRIPT 0)
      = [''Consider simplifying complex logic (found 16 complexity indicators)'']"
proof -
  have js: "JAVASCRIPT \<noteq> PYTHON" by simp
  note a = fallback_complexity_counts_lines_with_keyword [OF js, of "\<lambda>_. None" else_if_line 0]
  note b = fallback_complexity_counts_lines_with_keyword [OF js, of "\<lambda>_. None" keywords_twice 0]
  from a have a': "score (analyze_complexity (\<lambda>_. None) else_if_line JAVASCRIPT 0) = 96
    \<and> CodeAnalysisResult.suggestions (analyze_complexity (\<lambda>_. None) else_if_line JAVASCRIPT 0) = []"
    unfolding Let_def else_if_line_count by simp
  from b have b': "score (analyze_complexity (\<lambda>_. None) keywords_twice JAVASCRIPT 0) = 68
   \<and> CodeAnalysisResult.suggestions (analyze_complexity (\<lambda>_. None) keywords_twice JAVASCRIPT 0)
      = [''Consider simplifying complex logic (found 16 complexity indicators)'']"
    unfolding Let_def keywords_twice_count by (simp add: str_of_nat_16)
  from js a' b' show ?thesis by blast
qed

section \<open>The fallback security analysis\<close>

lemma security_patterns_flat:
  "[(issue_type, pattern). (issue_type, patterns) \<leftarrow> security_patterns, pattern \<leftarrow> patterns]
   = [(''sql_injection'', ''SELECT''), (''sql_injection'', ''INSERT''),
      (''sql_injection'', ''UPDATE''), (''sql_injection'', ''DELETE''),
      (''xss'', ''innerHTML''), (''xss'', ''document.write''), (''xss'', ''eval''),
      (''hardcoded_secrets'', ''password''), (''hardcoded_secrets'', ''api_key''),
      (''hardcoded_secrets'', ''secret''), (''hardcoded_secrets'', ''token''),
      (''unsafe_functions'', ''exec''), (''unsafe_functions'', ''system''),
      (''unsafe_functions'', ''shell_exec'')]"
  by (simp add: security_patterns_def)

lemma guarded_comprehension_filter:
  "[(t, p). (t, ps) \<leftarrow> table, p \<leftarrow> ps, P p]
   = filter (\<lambda>(t, p). P p) [(t, p). (t, ps) \<leftarrow> table, p \<leftarrow> ps]"
proof (induction table)
  case Nil
  show ?case by simp
next
  case (Cons a table)
  obtain t ps where a: "a = (t, ps)" by (cases a)
  have inner: "concat (map (\<lambda>p. if P p then [(t, p)] else []) ps)
               = filter (\<lambda>(t, p). P p) (concat (map (\<lambda>p. [(t, p)]) ps))"
    by (induction ps) auto
  from Cons inner show ?case by (simp add: a)
qed


lemma security_patterns_distinct:
  "distinct [(issue_type, pattern). (issue_type, patterns) \<leftarrow> security_patterns, pattern \<leftarrow> patterns]"
  unfolding security_patterns_flat by simp

lemma basic_security_result:
  "let matches = filter (\<lambda>(issue_type, pattern). str_in (str_lower pattern) (str_lower src))
                   [(issue_type, pattern). (issue_type, patterns) \<leftarrow> security_patterns,
                      pattern \<leftarrow> patterns]
   in issues (basic_security_analysis src lang now)
      = map (\<lambda>(issue_type, pattern).
               [(''type'', PyStr issue_type), (''pattern'', PyStr pattern),
                (''severity'', PyStr ''medium'')]) matches
    \<and> score (basic_security_analysis src lang now)
      = of_int (max 0 (100 - 10 * int (length matches)))"
  unfolding basic_security_analysis_def Let_def
    guarded_comprehension_filter [of "\<lambda>p. str_in (str_lower p) (str_lower src)" security_patterns]
  by (simp add: mult.commute)

lemma dom_sink_code_lower: "str_lower dom_sink_code = ''el.innerhtml = eval(userinput);''"
  unfolding dom_sink_code_def by code_simp

lemma dom_sink_code_hits:
  "map (\<lambda>p. str_in (str_lower p) ''el.innerhtml = eval(userinput);'')
     [''SELECT'', ''INSERT'', ''UPDATE'', ''DELETE'', ''innerHTML'', ''document.write'', ''eval'',
      ''password'', ''api_key'', ''secret'', ''token'', ''exec'', ''system'', ''shell_exec'']
   = [False, False, False, False, True, False, True, False, False, False, False, False, False, False]"
  by code_simp

lemma dom_sink_code_matches:
  "filter (\<lambda>(family, pattern). str_in (str_lower pattern) (str_lower dom_sink_code))
     [(family, pattern). (family, patterns) \<leftarrow> security_patterns, pattern \<leftarrow> patterns]
   = [(''xss'', ''innerHTML''), (''xss'', ''eval'')]"
  using dom_sink_code_hits
  unfolding security_patterns_flat dom_sink_code_lower
  by (simp del: str_in_def)

text \<open>
  Claim C5. For code in a language other than Python the security analysis compares the
  lower-cased text with each lower-cased pattern of the four families of
  \<^const>\<open>security_patterns\<close> (SQL statement keywords, DOM sinks, credential-like
  names, shell and eval calls), in the order of the table. Every pattern that occurs in the
  text gives one issue, which names the family and the pattern and has severity medium; so
  the number of issues is the number of patterns that occur. The score is
  \<open>max 0 (100 - 10 * n)\<close> for \<open>n\<close> issues, and two texts that differ only in the
  case of their letters get the same issues.
\<close>

theorem fallback_security_scan:
  assumes "lang \<noteq> PYTHON"
  shows "let r = analyze_security bandit src lang now;
             table = [(family, pattern). (family, patterns) \<leftarrow> security_patterns,
                        pattern \<leftarrow> patterns];
             matches = filter (\<lambda>(family, pattern). str_in (str_lower pattern) (str_lower src)) table
         in issues r
            = map (\<lambda>(family, pattern).
                     [(''type'', PyStr family), (''pattern'', PyStr pattern),
                      (''severity'', PyStr ''medium'')]) matches
          \<and> length (issues r)
            = card {m \<in> set table. case m of (family, pattern) \<Rightarrow>
                      str_in (str_lower pattern) (str_lower src)}
          \<and> (\<forall>i\<in>set (issues r). map_of i ''severity'' = Some (PyStr ''medium''))
          \<and> score r = of_int (max 0 (100 - 10 * int (length (issues r))))
          \<and> (\<forall>src'. str_lower src' = str_lower src \<longrightarrow>
                issues (analyze_security bandit src' lang now) = issues r)"
proof -
  let ?table = "[(family, pattern). (family, patterns) \<leftarrow> security_patterns, pattern \<leftarrow> patterns]"
  let ?m = "\<lambda>s. filter (\<lambda>(family, pattern). str_in (str_lower pattern) (str_lower s)) ?table"
  let ?mk = "\<lambda>(family, pattern).
                     [(''type'', PyStr family), (''pattern'', PyStr pattern),
                      (''severity'', PyStr ''medium'')]"
  have r: "\<And>s. analyze_security bandit s lang now = basic_security_analysis s lang now"
    using assms by (simp add: analyze_security_def)
  have iss: "\<And>s. issues (basic_security_analysis s lang now) = map ?mk (?m s)"
    using basic_security_result unfolding Let_def by blast
  have sc: "score (basic_security_analysis src lang now)
            = of_int (max 0 (100 - 10 * int (length (?m src))))"
    using basic_security_result [of src lang now] unfolding Let_def by blast
  have c: "length (?m src) = card {m \<in> set ?table. case m of (family, pattern) \<Rightarrow>
                      str_in (str_lower pattern) (str_lower src)}"
    by (rule length_filter_card [OF security_patterns_distinct])
  have sev: "\<forall>i\<in>set (map ?mk (?m src)). map_of i ''severity'' = Some (PyStr ''medium'')"
  proof
    fix i assume "i \<in> set (map ?mk (?m src))"
    then obtain f p where
      "i = [(''type'', PyStr f), (''pattern'', PyStr p), (''severity'', PyStr ''medium'')]"
      by (auto simp del: set_filter)
    then show "map_of i ''severity'' = Some (PyStr ''medium'')" by simp
  qed
  have ci: "\<forall>src'. str_lower src' = str_lower src \<longrightarrow> map ?mk (?m src') = map ?mk (?m src)"
    by (simp del: set_concat)
  have len: "length (map ?mk (?m src)) = length (?m src)" by (rule length_map)
  show ?thesis
    unfolding Let_def r iss sc len
    using c sev ci by blast
qed

theorem fallback_security_scan_witness:
  "JAVASCRIPT \<noteq> PYTHON
   \<and> issues (analyze_security (\<lambda>_. None) dom_sink_code JAVASCRIPT 0)
     = [[(''type'', PyStr ''xss''), (''pattern'', PyStr ''innerHTML''), (''severity'', PyStr ''medium'')],
        [(''type'', PyStr ''xss''), (''pattern'', PyStr ''eval''), (''severity'', PyStr ''medium'')]]
   \<and> score (analyze_security (\<lambda>_. None) dom_sink_code JAVASCRIPT 0) = 80
   \<and> str_lower (str_lower dom_sink_code) = str_lower dom_sink_code
   \<and> issues (analyze_security (\<lambda>_. None) (str_lower dom_sink_code) JAVASCRIPT 0)
     = issues (analyze_security (\<lambda>_. None) dom_sink_code JAVASCRIPT 0)"
proof -
  have js: "JAVASCRIPT \<noteq> PYTHON" by simp
  note a = fallback_security_scan [OF js, of "\<lambda>_. None" dom_sink_code 0]
  from a have i: "issues (analyze_security (\<lambda>_. None) dom_sink_code JAVASCRIPT 0)
     = [[(''type'', PyStr ''xss''), (''pattern'', PyStr ''innerHTML''), (''severity'', PyStr ''medium'')],
        [(''type'', PyStr ''xss''), (''pattern'', PyStr ''eval''), (''severity'', PyStr ''medium'')]]"
    unfolding Let_def dom_sink_code_matches by simp
  from a have "score (analyze_security (\<lambda>_. None) dom_sink_code JAVASCRIPT 0)
     = of_int (max 0 (100 - 10 * int (length (issues (analyze_security (\<lambda>_. None) dom_sink_code JAVASCRIPT 0)))))"
    unfolding Let_def by blast
  then have s: "score (analyze_security (\<lambda>_. None) dom_sink_code JAVASCRIPT 0) = 80"
    unfolding i by simp
  have l: "str_lower (str_lower dom_sink_code) = str_lower dom_sink_code"
    by (rule str_lower_idem)
  from a have "\<forall>src'. str_lower src' = str_lower dom_sink_code \<longrightarrow>
                issues (analyze_security (\<lambda>_. None) src' JAVASCRIPT 0)
                = issues (analyze_security (\<lambda>_. None) dom_sink_code JAVASCRIPT 0)"
    unfolding Let_def by blast
  with l have c: "issues (analyze_security (\<lambda>_. None) (str_lower dom_sink_code) JAVASCRIPT 0)
     = issues (analyze_security (\<lambda>_. None) dom_sink_code JAVASCRIPT 0)"
    by blast
  from js i s l c show ?thesis by blast
qed

section \<open>The fallback style analysis\<close>

lemma enumerate_filter_positions:
  "map fst (filter (\<lambda>(i, l). P l) (enumerate k xs))
   = map (\<lambda>n. k + n) (filter (\<lambda>n. P (xs ! n)) [0..<length xs])"
proof (induction xs arbitrary: k)
  case Nil
  show ?case by simp
next
  case (Cons x xs)
  have up: "[0..<length (x # xs)] = 0 # map Suc [0..<length xs]"
    by (simp add: upt_conv_Cons map_Suc_upt del: upt_Suc)
  have "map (\<lambda>n. k + n) (filter (\<lambda>n. P ((x # xs) ! n)) (map Suc [0..<length xs]))
        = map (\<lambda>n. Suc k + n) (filter (\<lambda>n. P (xs ! n)) [0..<length xs])"
    by (simp add: filter_map comp_def)
  with Cons [of "Suc k"] show ?case
    unfolding up by simp
qed

lemma enumerate_filter_length:
  "length (filter (\<lambda>(i, l). P l) (enumerate k xs)) = length (filter P xs)"
  by (induction xs arbitrary: k) auto

lemma guarded_pairs_filter:
  "concat (map (\<lambda>(i, line). if Q line then [(i, line)] else []) xs)
   = filter (\<lambda>(i, line). Q line) xs"
  by (induction xs) auto

lemma basic_style_result:
  "let long = filter (\<lambda>(i, line). length line > 120) (enumerate 1 (str_split CHR 0x0A src))
   in issues (basic_style_analysis src lang now)
      = map (\<lambda>(i, line).
               [(''type'', PyStr ''line_too_long''), (''line'', PyInt (int i)),
                (''length'', PyInt (int (length line))), (''severity'', PyStr ''low'')]) long
    \<and> score (basic_style_analysis src lang now) = of_int (max 0 (100 - 5 * int (length long)))"
  unfolding basic_style_analysis_def Let_def
  by (simp add: mult.commute guarded_pairs_filter)

lemma long_line_code_lines:
  "str_split CHR 0x0A long_line_code = [replicate 121 (CHR ''a''), ''short'']"
proof -
  have n: "CHR 0x0A \<notin> set (replicate 121 (CHR ''a''))" by simp
  have m: "CHR 0x0A \<notin> set ''short''" by simp
  have e: "long_line_code = replicate 121 (CHR ''a'') @ CHR 0x0A # ''short''"
    by (simp add: long_line_code_def)
  show ?thesis by (simp only: e str_split_append [OF n] str_split_no_sep [OF m])
qed

lemma long_line_code_long:
  "filter (\<lambda>l. length l > 120) (str_split CHR 0x0A long_line_code) = [replicate 121 (CHR ''a'')]"
  unfolding long_line_code_lines by simp

text \<open>
  Claim C6. For code in a language other than Python the style analysis reports, in the
  order of the lines, one issue for each line longer than 120 characters and for no other
  line: the issues carry the numbers (counted from 1) of exactly those lines, each has the
  type \<^verbatim>\<open>line_too_long\<close> and the severity low, and the score is
  \<open>max 0 (100 - 5 * n)\<close> for \<open>n\<close> issues. With exactly one line longer than 120
  characters there is exactly one issue and the score is 95.
\<close>

theorem fallback_style_flags_long_lines:
  assumes "lang \<noteq> PYTHON"
  shows "let r = analyze_style pylint src lang now;
             lines = str_split CHR 0x0A src
         in map (\<lambda>i. map_of i ''line'') (issues r)
            = map (\<lambda>n. Some (PyInt (int n + 1)))
                (filter (\<lambda>n. length (lines ! n) > 120) [0..<length lines])
          \<and> (\<forall>i\<in>set (issues r). map_of i ''type'' = Some (PyStr ''line_too_long'')
                                  \<and> map_of i ''severity'' = Some (PyStr ''low''))
          \<and> length (issues r) = length (filter (\<lambda>l. length l > 120) lines)
          \<and> score r = of_int (max 0 (100 - 5 * int (length (issues r))))
          \<and> (length (filter (\<lambda>l. length l > 120) lines) = 1
               \<longrightarrow> length (issues r) = 1 \<and> score r = 95)"
proof -
  let ?lines = "str_split CHR 0x0A src"
  let ?long = "filter (\<lambda>(i, line). length line > 120) (enumerate 1 ?lines)"
  let ?mk = "\<lambda>(i, line).
               [(''type'', PyStr ''line_too_long''), (''line'', PyInt (int i)),
                (''length'', PyInt (int (length line))), (''severity'', PyStr ''low'')]"
  have r: "analyze_style pylint src lang now = basic_style_analysis src lang now"
    using assms by (simp add: analyze_style_def)
  have iss: "issues (basic_style_analysis src lang now) = map ?mk ?long"
    using basic_style_result [of src lang now] unfolding Let_def by blast
  have sc: "score (basic_style_analysis src lang now) = of_int (max 0 (100 - 5 * int (length ?long)))"
    using basic_style_result [of src lang now] unfolding Let_def by blast
  have len: "length ?long = length (filter (\<lambda>l. length l > 120) ?lines)"
    by (rule enumerate_filter_length)
  have "map (\<lambda>i. map_of i ''line'') (map ?mk ?long) = map (\<lambda>p. Some (PyInt (int (fst p)))) ?long"
    by (simp add: case_prod_beta)
  also have "\<dots> = map (\<lambda>i. Some (PyInt (int i))) (map fst ?long)"
    by (simp add: comp_def)
  also have "map fst ?long = map (\<lambda>n. 1 + n) (filter (\<lambda>n. length (?lines ! n) > 120) [0..<length ?lines])"
    by (rule enumerate_filter_positions)
  finally have pos: "map (\<lambda>i. map_of i ''line'') (map ?mk ?long)
     = map (\<lambda>n. Some (PyInt (int n + 1)))
         (filter (\<lambda>n. length (?lines ! n) > 120) [0..<length ?lines])"
    by (simp add: comp_def add.commute)
  have sev: "\<forall>i\<in>set (map ?mk ?long). map_of i ''type'' = Some (PyStr ''line_too_long'')
                                  \<and> map_of i ''severity'' = Some (PyStr ''low'')"
    by (simp add: case_prod_beta)
  have lm: "length (map ?mk ?long) = length ?long" by (rule length_map)
  have one: "length (filter (\<lambda>l. length l > 120) ?lines) = 1
               \<longrightarrow> length ?long = 1 \<and> (of_int (max 0 (100 - 5 * int (length ?long))) :: rat) = 95"
    unfolding len by simp
  show ?thesis
    unfolding Let_def r iss sc lm
    using pos sev len one by simp
qed

theorem fallback_style_flags_long_lines_witness:
  "JAVASCRIPT \<noteq> PYTHON
   \<and> length (filter (\<lambda>l. length l > 120) (str_split CHR 0x0A long_line_code)) = 1
   \<and> length (issues (analyze_style (\<lambda>_. None) long_line_code JAVASCRIPT 0)) = 1
   \<and> map (\<lambda>i. map_of i ''line'') (issues (analyze_style (\<lambda>_. None) long_line_code JAVASCRIPT 0))
     = [Some (PyInt 1)]
   \<and> score (analyze_style (\<lambda>_. None) long_line_code JAVASCRIPT 0) = 95"
proof -
  have js: "JAVASCRIPT \<noteq> PYTHON" by simp
  have one: "length (filter (\<lambda>l. length l > 120) (str_split CHR 0x0A long_line_code)) = 1"
    unfolding long_line_code_long by simp
  note a = fallback_style_flags_long_lines [OF js, of "\<lambda>_. None" long_line_code 0]
  from a one have b: "length (issues (analyze_style (\<lambda>_. None) long_line_code JAVASCRIPT 0)) = 1
     \<and> score (analyze_style (\<lambda>_. None) long_line_code JAVASCRIPT 0) = 95"
    unfolding Let_def by blast
  have pos: "filter (\<lambda>n. length ([replicate 121 (CHR ''a''), ''short''] ! n) > 120) [0..<2] = [0]"
    by (simp add: upt_conv_Cons del: upt_Suc)
  from a have "map (\<lambda>i. map_of i ''line'') (issues (analyze_style (\<lambda>_. None) long_line_code JAVASCRIPT 0))
     = map (\<lambda>n. Some (PyInt (int n + 1)))
                (filter (\<lambda>n. length (str_split CHR 0x0A long_line_code ! n) > 120)
                   [0..<length (str_split CHR 0x0A long_line_code)])"
    unfolding Let_def by blast
  then have c: "map (\<lambda>i. map_of i ''line'') (issues (analyze_style (\<lambda>_. None) long_line_code JAVASCRIPT 0))
     = [Some (PyInt 1)]"
    unfolding long_line_code_lines using pos by simp
  from js one b c show ?thesis by blast
qed

section \<open>Every score lies between 0 and 100\<close>

lemma all_patterns_code_lower:
  "str_lower all_patterns_code =
     ''select insert update delete innerhtml document.write eval password api_key secret token exec system shell_exec''"
  unfolding all_patterns_code_def by code_simp

lemma all_patterns_code_hits:
  "map (\<lambda>p. str_in (str_lower p)
     ''select insert update delete innerhtml document.write eval password api_key secret token exec system shell_exec'')
     [''SELECT'', ''INSERT'', ''UPDATE'', ''DELETE'', ''innerHTML'', ''document.write'', ''eval'',
      ''password'', ''api_key'', ''secret'', ''token'', ''exec'', ''system'', ''shell_exec'']
   = [True, True, True, True, True, True, True, True, True, True, True, True, True, True]"
  by code_simp

lemma all_patterns_code_matches:
  "length (filter (\<lambda>(family, pattern). str_in (str_lower pattern) (str_lower all_patterns_code))
     [(family, pattern). (family, patterns) \<leftarrow> security_patterns, pattern \<leftarrow> patterns]) = 14"
  using all_patterns_code_hits
  unfolding security_patterns_flat all_patterns_code_lower
  by (simp del: str_in_def)

lemma all_patterns_code_score:
  "length (issues (basic_security_analysis all_patterns_code JAVASCRIPT 0)) = 14
   \<and> score (basic_security_analysis all_patterns_code JAVASCRIPT 0) = 0"
  using basic_security_result [of all_patterns_code JAVASCRIPT 0]
  unfolding Let_def by (simp add: all_patterns_code_matches)

text \<open>
  Claim C1. Whatever the code, the language and the answers of the external tools, the
  scores of the complexity, security and style analyses lie between 0 and 100, and so do the
  scores of the three fallback analyses. In the witness the text with all fourteen security
  patterns would score \<open>100 - 140\<close> and scores 0, and a Python function of complexity 30
  would score \<open>100 - 150\<close> and scores 0.
\<close>

theorem analyzer_scores_in_range:
  "0 \<le> score (analyze_complexity radon src lang now)
   \<and> score (analyze_complexity radon src lang now) \<le> 100
   \<and> 0 \<le> score (analyze_security bandit src lang now)
   \<and> score (analyze_security bandit src lang now) \<le> 100
   \<and> 0 \<le> score (analyze_style pylint src lang now)
   \<and> score (analyze_style pylint src lang now) \<le> 100
   \<and> 0 \<le> score (basic_complexity_analysis src lang now)
   \<and> score (basic_complexity_analysis src lang now) \<le> 100
   \<and> 0 \<le> score (basic_security_analysis src lang now)
   \<and> score (basic_security_analysis src lang now) \<le> 100
   \<and> 0 \<le> score (basic_style_analysis src lang now)
   \<and> score (basic_style_analysis src lang now) \<le> 100"
  using analyze_complexity_score_range [of radon src lang now]
    analyze_security_score_range [of bandit src lang now]
    analyze_style_score_range [of pylint src lang now]
    basic_complexity_score_range [of src lang now]
    basic_security_score_range [of src lang now]
    basic_style_score_range [of src lang now]
  by blast

theorem analyzer_scores_in_range_witness:
  "length (issues (analyze_security (\<lambda>_. None) all_patterns_code JAVASCRIPT 0)) = 14
   \<and> score (analyze_security (\<lambda>_. None) all_patterns_code JAVASCRIPT 0) = 0
   \<and> 0 \<le> score (analyze_security (\<lambda>_. None) all_patterns_code JAVASCRIPT 0)
   \<and> score (analyze_security (\<lambda>_. None) all_patterns_code JAVASCRIPT 0) \<le> 100
   \<and> score (analyze_complexity
        (\<lambda>_. Some ([\<lparr>name = ''f'', lineno = 1, complexity = 30\<rparr>],
                    \<lparr>loc = 1, lloc = 1, sloc = 1, comments = 0, multi = 0, blank = 0\<rparr>))
        ''x'' PYTHON 0) = 0
   \<and> 0 \<le> score (analyze_complexity
        (\<lambda>_. Some ([\<lparr>name = ''f'', lineno = 1, complexity = 30\<rparr>],
                    \<lparr>loc = 1, lloc = 1, sloc = 1, comments = 0, multi = 0, blank = 0\<rparr>))
        ''x'' PYTHON 0)"
proof -
  let ?radon = "\<lambda>_ :: string. Some ([\<lparr>name = ''f'', lineno = 1, complexity = 30\<rparr>],
                    \<lparr>loc = 1, lloc = 1, sloc = 1, comments = 0, multi = 0, blank = 0\<rparr>)"
  have e: "analyze_security (\<lambda>_. None) all_patterns_code JAVASCRIPT 0
           = basic_security_analysis all_patterns_code JAVASCRIPT 0"
    by (simp add: analyze_security_def)
  have c: "score (analyze_complexity ?radon ''x'' PYTHON 0) = 0"
    by (simp add: analyze_complexity_def Let_def)
  note r = analyzer_scores_in_range [of ?radon all_patterns_code JAVASCRIPT 0 "\<lambda>_. None" "\<lambda>_. None"]
  note r' = analyzer_scores_in_range [of ?radon "''x''" PYTHON 0 "\<lambda>_. None" "\<lambda>_. None"]
  from r have b: "0 \<le> score (analyze_security (\<lambda>_. None) all_patterns_code JAVASCRIPT 0)
   \<and> score (analyze_security (\<lambda>_. None) all_patterns_code JAVASCRIPT 0) \<le> 100" by blast
  from r' have b': "0 \<le> score (analyze_complexity ?radon ''x'' PYTHON 0)" by blast
  from all_patterns_code_score e have s: "length (issues (analyze_security (\<lambda>_. None) all_patterns_code JAVASCRIPT 0)) = 14
   \<and> score (analyze_security (\<lambda>_. None) all_patterns_code JAVASCRIPT 0) = 0" by simp
  from s b c b' show ?thesis by blast
qed

section \<open>The code with the bare exception handler\<close>

subsection \<open>The security and style analyses\<close>










subsection \<open>The keyword scan of bug detection\<close>

lemma bare_except_code_nonempty: "bare_except_code \<noteq> []"
  by (simp add: bare_except_code_def)

lemma bare_except_code_scan:
  "str_in ''except:'' bare_except_code \<and> \<not> str_in ''eval('' bare_except_code
   \<and> str_in ''input('' bare_except_code \<and> str_in ''int('' bare_except_code"
  unfolding bare_except_code_def by code_simp

lemma python_lower: "str_lower ''python'' = ''python''"
  by code_simp

lemma bare_except_result_mentions:
  "str_in ''Bare except clause detected''
     (''Potential issues found:'' @ [CHR 0x0A]
      @ ''- Bare except clause detected - should catch specific exceptions'' @ [CHR 0x0A]
      @ ''- Potential ValueError if non-numeric input provided'')
   \<and> str_in ''except''
     (str_lower (''Potential issues found:'' @ [CHR 0x0A]
      @ ''- Bare except clause detected - should catch specific exceptions'' @ [CHR 0x0A]
      @ ''- Potential ValueError if non-numeric input provided''))"
  by code_simp

text \<open>
  The keyword scan of \<^verbatim>\<open>detect_bugs\<close> in \<^verbatim>\<open>src/app.py\<close>, which is no part
  of the analyses above, does look for \<^verbatim>\<open>except:\<close>: on the request of the
  repository's test its result text is the heading, the line
  \<^verbatim>\<open>- Bare except clause detected - should catch specific exceptions\<close> and the line
  about the unchecked conversion of the input.
\<close>

lemma detect_bugs_reports_bare_except:
  "let response =
         \<lparr>task_type = BUG_DETECTION, language = ''python'',
          result = ''Potential issues found:'' @ [CHR 0x0A]
            @ ''- Bare except clause detected - should catch specific exceptions'' @ [CHR 0x0A]
            @ ''- Potential ValueError if non-numeric input provided'',
          suggestions = [''Fix the identified issues'', ''Add proper error handling'',
                         ''Consider using a linter for additional checks''],
          confidence = 7 / 10, timestamp = now\<rparr>
   in detect_bugs bare_except_request now = Inr response
      \<and> str_in ''Bare except clause detected'' (result response)
      \<and> str_in ''except'' (str_lower (result response))"
proof -
  have d: "detect_bugs bare_except_request now =
     Inr \<lparr>task_type = BUG_DETECTION, language = ''python'',
          result = ''Potential issues found:'' @ [CHR 0x0A]
            @ ''- Bare except clause detected - should catch specific exceptions'' @ [CHR 0x0A]
            @ ''- Potential ValueError if non-numeric input provided'',
          suggestions = [''Fix the identified issues'', ''Add proper error handling'',
                         ''Consider using a linter for additional checks''],
          confidence = 7 / 10, timestamp = now\<rparr>"
    by (simp add: detect_bugs_def bare_except_request_def bare_except_code_nonempty
        bare_except_code_scan python_lower Let_def)
  show ?thesis
    unfolding Let_def using d bare_except_result_mentions by simp
qed

end
